theory Spec2Isabelle
  imports Complex_Main "HOL-Library.Product_Lexorder"
begin

section \<open>Errors raised by the training script\<close>

text \<open>
  The exceptions of \<^verbatim>\<open>cifar/main_cifar.py\<close> that the model keeps as values. A computation
  that raises returns \<open>Inl e\<close>; one that returns normally returns \<open>Inr v\<close>.
\<close>

datatype error =
    ZeroDivisionError
  | ValueError
  | RuntimeError
  | SameFileError
  | FileNotFoundError
  | UnpicklingError

section \<open>Checkpoint files\<close>

text \<open>
  The dictionary handed to \<^verbatim>\<open>save_checkpoint\<close> by \<^verbatim>\<open>main\<close> (lines 208-214). The model
  parameters and the optimizer state are opaque blobs of types \<open>'m\<close> and \<open>'o\<close>; the
  fields are the dictionary's keys \<^verbatim>\<open>epoch\<close>, \<^verbatim>\<open>arch\<close>, \<^verbatim>\<open>state_dict\<close>, \<^verbatim>\<open>best_prec1\<close>
  and \<^verbatim>\<open>optimizer\<close>.
\<close>

record ('m, 'o) checkpoint =
  ck_epoch :: int
  ck_arch :: string
  ck_state_dict :: 'm
  ck_best_prec1 :: real
  ck_optimizer :: 'o

text \<open>
  What a file holds: a checkpoint serialised by \<^verbatim>\<open>torch.save\<close>, or anything else
  (the text logs, say), which \<^verbatim>\<open>torch.load\<close> cannot read.
\<close>

datatype ('m, 'o) content = Pickled "('m, 'o) checkpoint" | Other string

type_synonym ('m, 'o) fs = "string \<rightharpoonup> ('m, 'o) content"

text \<open>\<^verbatim>\<open>os.path.join(a, b)\<close> for two components on a POSIX system.\<close>

definition path_join :: "string \<Rightarrow> string \<Rightarrow> string" where
  "path_join a b =
     (if b \<noteq> [] \<and> hd b = CHR ''/'' then b
      else if a = [] \<or> last a = CHR ''/'' then a @ b
      else a @ ''/'' @ b)"

definition path_exists :: "('m, 'o) fs \<Rightarrow> string \<Rightarrow> bool" where
  "path_exists files p = (files p \<noteq> None)"

definition isfile :: "('m, 'o) fs \<Rightarrow> string \<Rightarrow> bool" where
  "isfile files p = (files p \<noteq> None)"

text \<open>\<^verbatim>\<open>torch.save(state, path)\<close>: the file at \<open>path\<close> is created or overwritten.\<close>

definition torch_save :: "('m, 'o) checkpoint \<Rightarrow> string \<Rightarrow> ('m, 'o) fs \<Rightarrow> ('m, 'o) fs" where
  "torch_save state p files = files(p \<mapsto> Pickled state)"

text \<open>\<^verbatim>\<open>torch.load(path)\<close>.\<close>

definition torch_load :: "('m, 'o) fs \<Rightarrow> string \<Rightarrow> error + ('m, 'o) checkpoint" where
  "torch_load files p =
     (case files p of
        None \<Rightarrow> Inl FileNotFoundError
      | Some (Other _) \<Rightarrow> Inl UnpicklingError
      | Some (Pickled c) \<Rightarrow> Inr c)"

text \<open>
  \<^verbatim>\<open>shutil.copyfile(src, dst)\<close>: raises when both names are the same file or when the
  source is missing, otherwise the destination holds a copy of the source.
\<close>

definition copyfile :: "string \<Rightarrow> string \<Rightarrow> ('m, 'o) fs \<Rightarrow> error + ('m, 'o) fs" where
  "copyfile src dst files =
     (if src = dst then Inl SameFileError
      else case files src of
             None \<Rightarrow> Inl FileNotFoundError
           | Some c \<Rightarrow> Inr (files(dst \<mapsto> c)))"

text \<open>The decimal digits that \<^verbatim>\<open>'%d' % i\<close> prints for a non-negative \<open>i\<close>.\<close>

definition digit_char :: "nat \<Rightarrow> char" where
  "digit_char d = ''0123456789'' ! d"

fun string_of_nat :: "nat \<Rightarrow> string" where
  "string_of_nat n =
     (if n < 10 then [digit_char n]
      else string_of_nat (n div 10) @ [digit_char (n mod 10)])"

declare string_of_nat.simps [simp del]

definition must_save_name :: "nat \<Rightarrow> string" where
  "must_save_name i = ''model_must_save_'' @ string_of_nat i @ ''.pth.tar''"

text \<open>
  The \<^verbatim>\<open>while True\<close> loop of \<^verbatim>\<open>save_checkpoint\<close> (lines 331-336):
  \<^verbatim>\<open>
        while True:
            i = 0
            if not(os.path.exists(os.path.join(output_dir, 'model_must_save_%d.pth.tar'%i))):
                shutil.copyfile(os.path.join(output_dir, filename), os.path.join(output_dir, 'model_must_save_%d.pth.tar'%i))
                break
            i = i + 1
  \<close>
  The assignment \<^verbatim>\<open>i = 0\<close> is the first statement of the loop body, so every iteration
  starts from \<open>0\<close> whatever the previous one left in \<open>i\<close>. The loop may run forever:
  the value \<open>None\<close> stands for a call that never returns.
\<close>

partial_function (option) must_save_loop ::
  "string \<Rightarrow> string \<Rightarrow> ('m, 'o) fs \<Rightarrow> (error + ('m, 'o) fs) option" where
  "must_save_loop output_dir filename files =
     (let i = (0::nat) in
      if \<not> path_exists files (path_join output_dir (must_save_name i))
      then Some (copyfile (path_join output_dir filename)
                   (path_join output_dir (must_save_name i)) files)
      else (let i = i + 1 in must_save_loop output_dir filename files))"

text \<open>
  \<^verbatim>\<open>save_checkpoint(state, is_best, output_dir, filename='checkpoint.pth.tar', must_save=False)\<close>
  (lines 325-336). An exception of \<^verbatim>\<open>shutil.copyfile\<close> ends the call at once.
\<close>

definition save_checkpoint ::
  "('m, 'o) checkpoint \<Rightarrow> bool \<Rightarrow> string \<Rightarrow> string \<Rightarrow> bool \<Rightarrow> ('m, 'o) fs
     \<Rightarrow> (error + ('m, 'o) fs) option" where
  "save_checkpoint state is_best output_dir filename must_save files =
     (let files1 = torch_save state (path_join output_dir filename) files in
      case (if is_best
            then copyfile (path_join output_dir filename)
                   (path_join output_dir ''model_best.pth.tar'') files1
            else Inr files1) of
        Inl e \<Rightarrow> Some (Inl e)
      | Inr files2 \<Rightarrow>
          if must_save then must_save_loop output_dir filename files2
          else Some (Inr files2))"

abbreviation checkpoint_name :: string where
  "checkpoint_name \<equiv> ''checkpoint.pth.tar''"

section \<open>AverageMeter\<close>






section \<open>Learning-rate schedule\<close>

text \<open>
  A parameter group of the optimizer: its \<^verbatim>\<open>'lr'\<close> entry and the rest of it (parameters,
  momentum buffers), opaque.
\<close>

record 'p param_group =
  group_lr :: real
  group_rest :: 'p

text \<open>
  The rates are Python floats, that is IEEE binary64 numbers. A finite double is
  modelled by its real value; infinities and nan are not modelled. \<open>round_double x\<close> is
  the double nearest to \<open>x\<close>, ties going to the even significand: 53 significant bits,
  and below \<open>2 ^ - 1022\<close> the fixed spacing \<open>2 ^ - 1074\<close> of the subnormal numbers. It
  is what a decimal literal denotes and what an arithmetic operation returns for its
  exact result. (Above the largest double the hardware gives an infinity; the products
  below are smaller than their finite factor, so that case does not arise.)
\<close>

definition round_half_even :: "real \<Rightarrow> int" where
  "round_half_even x =
     (let f = \<lfloor>x\<rfloor>; d = x - of_int f
      in if d < 1 / 2 then f
         else if 1 / 2 < d then f + 1
         else if even f then f else f + 1)"

definition round_double :: "real \<Rightarrow> real" where
  "round_double x =
     (if x = 0 then 0
      else let e = max (\<lfloor>log 2 \<bar>x\<bar>\<rfloor> - 52) (- 1074)
           in of_int (round_half_even (x / 2 powi e)) * 2 powi e)"

text \<open>\<^verbatim>\<open>a * b\<close> on two floats.\<close>

definition double_mul :: "real \<Rightarrow> real \<Rightarrow> real" where
  "double_mul a b = round_double (a * b)"

text \<open>
  \<^verbatim>\<open>adjust_learning_rate(optimizer, epoch)\<close> (lines 362-372); \<open>args_lr\<close> is the global
  \<^verbatim>\<open>args.lr\<close> that the function reads, a finite float; the literals \<^verbatim>\<open>0.1\<close> and
  \<^verbatim>\<open>0.01\<close> are the doubles nearest to a tenth and a hundredth. The result is the
  optimizer's list of parameter groups after the assignment loop.
\<close>

definition adjust_learning_rate ::
  "real \<Rightarrow> 'p param_group list \<Rightarrow> int \<Rightarrow> 'p param_group list" where
  "adjust_learning_rate args_lr optimizer epoch =
     (let lr = (if epoch \<le> 81 then args_lr
                else if epoch \<le> 122 then double_mul args_lr (round_double 0.1)
                else double_mul args_lr (round_double 0.01))
      in map (\<lambda>param_group. param_group\<lparr>group_lr := lr\<rparr>) optimizer)"

section \<open>Top-k accuracy\<close>

text \<open>
  A two-dimensional tensor of scores: one row per example, \<open>ncols\<close> entries per row. The
  number of columns is kept beside the rows, as a tensor keeps its shape when the batch
  is empty.
\<close>

record tensor2 =
  ncols :: nat
  rows :: "real list list"

definition wf_tensor :: "tensor2 \<Rightarrow> bool" where
  "wf_tensor x = list_all (\<lambda>row. length row = ncols x) (rows x)"

text \<open>
  The indices of the \<open>k\<close> largest entries of one row, largest first, as
  \<^verbatim>\<open>Tensor.topk(k, 1, True, True)\<close> returns them. The library does not say which of two
  equal scores comes first; the model puts the lower index first.
\<close>

definition topk_row :: "nat \<Rightarrow> real list \<Rightarrow> nat list" where
  "topk_row k row = take k (sort_key (\<lambda>j. (- (row ! j), j)) [0..<length row])"

text \<open>The library call raises when \<open>k\<close> exceeds the size of the dimension.\<close>

definition tensor_topk :: "nat \<Rightarrow> tensor2 \<Rightarrow> error + nat list list" where
  "tensor_topk k x =
     (if ncols x < k then Inl RuntimeError else Inr (map (topk_row k) (rows x)))"

text \<open>\<^verbatim>\<open>pred.t()\<close> for a tensor whose rows have \<open>c\<close> entries each.\<close>

definition tensor_t :: "nat \<Rightarrow> 'a list list \<Rightarrow> 'a list list" where
  "tensor_t c xss = map (\<lambda>j. map (\<lambda>xs. xs ! j) xss) [0..<c]"

text \<open>
  \<^verbatim>\<open>target.view(1, -1).expand_as(pred)\<close> for a \<open>pred\<close> of \<open>r\<close> rows and \<open>c\<close> columns: the
  row of targets is repeated \<open>r\<close> times; a single target is also repeated along the
  row; any other length does not fit and raises.
\<close>

definition expand_as :: "nat list \<Rightarrow> nat \<Rightarrow> nat \<Rightarrow> error + nat list list" where
  "expand_as target r c =
     (if length target = c then Inr (replicate r target)
      else if length target = 1 then Inr (replicate r (replicate c (hd target)))
      else Inl RuntimeError)"

definition tensor_eq :: "nat list list \<Rightarrow> nat list list \<Rightarrow> bool list list" where
  "tensor_eq a b = map2 (map2 (=)) a b"

text \<open>
  The loop over \<^verbatim>\<open>topk\<close> (lines 385-387); \<^verbatim>\<open>100.0 / batch_size\<close> raises on an empty
  batch.
\<close>

fun accuracy_loop :: "bool list list \<Rightarrow> nat \<Rightarrow> nat list \<Rightarrow> error + real list" where
  "accuracy_loop correct batch_size [] = Inr []"
| "accuracy_loop correct batch_size (k # ks) =
     (if batch_size = 0 then Inl ZeroDivisionError
      else let correct_k = real (length (filter id (concat (take k correct))))
           in case accuracy_loop correct batch_size ks of
                Inl e \<Rightarrow> Inl e
              | Inr res \<Rightarrow> Inr (correct_k * (100 / real batch_size) # res))"

text \<open>
  \<^verbatim>\<open>accuracy(output, target, topk)\<close> (lines 374-388). \<^verbatim>\<open>max(topk)\<close> raises
  \<^verbatim>\<open>ValueError\<close> on an empty tuple.
\<close>

definition accuracy :: "tensor2 \<Rightarrow> nat list \<Rightarrow> nat list \<Rightarrow> error + real list" where
  "accuracy output target topk =
     (case topk of
        [] \<Rightarrow> Inl ValueError
      | k0 # ks \<Rightarrow>
          let maxk = fold max ks k0;
              batch_size = length target
          in (case tensor_topk maxk output of
                Inl e \<Rightarrow> Inl e
              | Inr pred0 \<Rightarrow>
                  (let pred = tensor_t maxk pred0
                   in (case expand_as target maxk (length (rows output)) of
                         Inl e \<Rightarrow> Inl e
                       | Inr tgt \<Rightarrow>
                           (let correct = tensor_eq pred tgt
                            in accuracy_loop correct batch_size topk)))))"

text \<open>
  The specification's reading of top-k accuracy, to compare \<open>accuracy\<close> with: a target
  is among the \<open>k\<close> highest-scoring classes of a row when fewer than \<open>k\<close> classes come
  before it (a higher score, or the same score at a lower index), and the reported
  value is \<open>100 * (count of correct examples) / batch_size\<close>.
\<close>

definition in_top_k :: "nat \<Rightarrow> real list \<Rightarrow> nat \<Rightarrow> bool" where
  "in_top_k k row t =
     (t < length row \<and>
      length (filter (\<lambda>j. row ! t < row ! j \<or> (row ! j = row ! t \<and> j < t))
                [0..<length row]) < k)"

definition spec_topk_accuracy :: "tensor2 \<Rightarrow> nat list \<Rightarrow> nat \<Rightarrow> real" where
  "spec_topk_accuracy output target k =
     100 * real (length (filter (\<lambda>i. in_top_k k (rows output ! i) (target ! i))
                           [0..<length target]))
       / real (length target)"

text \<open>The scores of the specification's example: two examples, three classes.\<close>

definition example_scores :: tensor2 where
  "example_scores = \<lparr>ncols = 3, rows = [[0.1, 0.9, 0.0], [0.8, 0.1, 0.1]]\<rparr>"

section \<open>The run: resume, epoch loop, checkpoints\<close>

text \<open>The command-line arguments that the modelled part of \<^verbatim>\<open>main\<close> reads.\<close>

record args =
  arch :: string
  epochs :: int
  start_epoch :: int
  lr :: real
  resume :: string
  evaluate :: bool
  ctype :: int
  output_dir :: string

text \<open>
  The state that \<^verbatim>\<open>main\<close> threads through the run: the global \<^verbatim>\<open>args\<close> and
  \<^verbatim>\<open>best_prec1\<close>, the model's parameters, the optimizer's parameter groups, the files
  on disk and the lines printed so far.
\<close>

record ('m, 'p) run =
  args :: args
  best_prec1 :: real
  model :: 'm
  optimizer :: "'p param_group list"
  disk :: "('m, 'p param_group list) fs"
  stdout :: "string list"

text \<open>The state before the resume step; line 67 initialises \<^verbatim>\<open>best_prec1 = 0\<close>.\<close>

definition initial_run ::
  "args \<Rightarrow> 'm \<Rightarrow> 'p param_group list \<Rightarrow> ('m, 'p param_group list) fs \<Rightarrow> ('m, 'p) run" where
  "initial_run a m opt d =
     \<lparr>args = a, best_prec1 = 0, model = m, optimizer = opt, disk = d, stdout = []\<rparr>"

definition print :: "string \<Rightarrow> ('m, 'p) run \<Rightarrow> ('m, 'p) run" where
  "print msg s = s\<lparr>stdout := stdout s @ [msg]\<rparr>"

definition string_of_int :: "int \<Rightarrow> string" where
  "string_of_int i = (if i < 0 then ''-'' @ string_of_nat (nat (- i)) else string_of_nat (nat i))"

definition quoted :: "string \<Rightarrow> string" where
  "quoted p = [CHR 0x27] @ p @ [CHR 0x27]"

text \<open>
  Lines 128-139 of \<^verbatim>\<open>main\<close>:
  \<^verbatim>\<open>
    if args.resume:
        if os.path.isfile(args.resume):
            print("=> loading checkpoint '{}'".format(args.resume))
            checkpoint = torch.load(args.resume)
            args.start_epoch = checkpoint['epoch']
            best_prec1 = checkpoint['best_prec1']
            model.load_state_dict(checkpoint['state_dict'])
            optimizer.load_state_dict(checkpoint['optimizer'])
            print("=> loaded checkpoint '{}' (epoch {})"
                  .format(args.resume, checkpoint['epoch']))
        else:
            print("=> no checkpoint found at '{}'".format(args.resume))
  \<close>
\<close>

definition main_resume :: "('m, 'p) run \<Rightarrow> error + ('m, 'p) run" where
  "main_resume s =
     (if resume (args s) \<noteq> [] then
        if isfile (disk s) (resume (args s)) then
          (let s1 = print (''=> loading checkpoint '' @ quoted (resume (args s))) s
           in (case torch_load (disk s1) (resume (args s1)) of
                 Inl e \<Rightarrow> Inl e
               | Inr checkpoint \<Rightarrow>
                   (let s2 = s1\<lparr>args := (args s1)\<lparr>start_epoch := ck_epoch checkpoint\<rparr>\<rparr>;
                        s3 = s2\<lparr>best_prec1 := ck_best_prec1 checkpoint\<rparr>;
                        s4 = s3\<lparr>model := ck_state_dict checkpoint\<rparr>;
                        s5 = s4\<lparr>optimizer := ck_optimizer checkpoint\<rparr>
                    in Inr (print (''=> loaded checkpoint '' @ quoted (resume (args s5))
                                   @ '' (epoch '' @ string_of_int (ck_epoch checkpoint) @ '')'')
                              s5))))
        else Inr (print (''=> no checkpoint found at '' @ quoted (resume (args s))) s)
      else Inr s)"

text \<open>
  One iteration of the epoch loop (lines 194-214). Training and validation belong to
  the model and the data, which the script takes from outside: \<open>train epoch m opt\<close> is
  the model and optimizer after \<^verbatim>\<open>train(...)\<close>, \<open>validate m\<close> the \<^verbatim>\<open>top1.avg\<close> that
  \<^verbatim>\<open>validate(...)\<close> returns. Their log lines are not modelled.
\<close>

definition main_epoch ::
  "(int \<Rightarrow> 'm \<Rightarrow> 'p param_group list \<Rightarrow> 'm \<times> 'p param_group list) \<Rightarrow> ('m \<Rightarrow> real)
     \<Rightarrow> int \<Rightarrow> ('m, 'p) run \<Rightarrow> (error + ('m, 'p) run) option" where
  "main_epoch train validate epoch s =
     (let s1 = s\<lparr>optimizer := adjust_learning_rate (lr (args s)) (optimizer s) epoch\<rparr>;
          trained = train epoch (model s1) (optimizer s1);
          s2 = s1\<lparr>model := fst trained, optimizer := snd trained\<rparr>;
          prec1 = validate (model s2);
          is_best = (prec1 > best_prec1 s2);
          s3 = s2\<lparr>best_prec1 := max prec1 (best_prec1 s2)\<rparr>;
          must_save = (epoch + 1 = 80)
      in (case save_checkpoint
                \<lparr>ck_epoch = epoch + 1, ck_arch = arch (args s3), ck_state_dict = model s3,
                 ck_best_prec1 = best_prec1 s3, ck_optimizer = optimizer s3\<rparr>
                is_best (output_dir (args s3)) checkpoint_name must_save (disk s3) of
            None \<Rightarrow> None
          | Some (Inl e) \<Rightarrow> Some (Inl e)
          | Some (Inr d) \<Rightarrow> Some (Inr (s3\<lparr>disk := d\<rparr>))))"

text \<open>\<^verbatim>\<open>for epoch in range(args.start_epoch, args.epochs)\<close>.\<close>

definition epoch_range :: "('m, 'p) run \<Rightarrow> int list" where
  "epoch_range s = [start_epoch (args s)..epochs (args s) - 1]"

fun epochs_loop ::
  "(int \<Rightarrow> 'm \<Rightarrow> 'p param_group list \<Rightarrow> 'm \<times> 'p param_group list) \<Rightarrow> ('m \<Rightarrow> real)
     \<Rightarrow> int list \<Rightarrow> ('m, 'p) run \<Rightarrow> (error + ('m, 'p) run) option" where
  "epochs_loop train validate [] s = Some (Inr s)"
| "epochs_loop train validate (epoch # rest) s =
     (case main_epoch train validate epoch s of
        None \<Rightarrow> None
      | Some (Inl e) \<Rightarrow> Some (Inl e)
      | Some (Inr s') \<Rightarrow> epochs_loop train validate rest s')"

text \<open>
  \<^verbatim>\<open>main\<close> from the resume step on (lines 128-214): resume, the check of the dataset
  selector, the evaluate-only exit, the epoch loop.
\<close>

definition main ::
  "(int \<Rightarrow> 'm \<Rightarrow> 'p param_group list \<Rightarrow> 'm \<times> 'p param_group list) \<Rightarrow> ('m \<Rightarrow> real)
     \<Rightarrow> ('m, 'p) run \<Rightarrow> (error + ('m, 'p) run) option" where
  "main train validate s0 =
     (case main_resume s0 of
        Inl e \<Rightarrow> Some (Inl e)
      | Inr s \<Rightarrow>
          if ctype (args s) = 10 \<or> ctype (args s) = 100 then
            (if evaluate (args s) then Some (Inr s)
             else epochs_loop train validate (epoch_range s) s)
          else Some (Inr (print ''Unknown CIFAR type!'' s)))"

text \<open>
  A run whose validation top-1 means are \<open>70, 65, 72, 72, 80\<close>: the model's state is the
  index of the last epoch trained, and validation reads the mean of that epoch.
\<close>

definition example_train :: "int \<Rightarrow> int \<Rightarrow> unit param_group list \<Rightarrow> int \<times> unit param_group list" where
  "example_train epoch m opt = (epoch, opt)"

definition example_validate :: "int \<Rightarrow> real" where
  "example_validate m = [70, 65, 72, 72, 80] ! nat m"

definition example_args :: "int \<Rightarrow> args" where
  "example_args n =
     \<lparr>arch = ''resnet164_lst_cifar'', epochs = n, start_epoch = 0, lr = 0.1, resume = [],
      evaluate = False, ctype = 100, output_dir = ''./''\<rparr>"

definition example_run :: "int \<Rightarrow> (int, unit) run" where
  "example_run n =
     initial_run (example_args n) (- 1) [\<lparr>group_lr = 0.1, group_rest = ()\<rparr>] Map.empty"

text \<open>The epoch recorded in the best slot, if there is one.\<close>

definition best_slot_epoch :: "('m, 'p) run \<Rightarrow> int option" where
  "best_slot_epoch s =
     (case disk s (path_join (output_dir (args s)) ''model_best.pth.tar'') of
        Some (Pickled c) \<Rightarrow> Some (ck_epoch c)
      | _ \<Rightarrow> None)"

text \<open>
  A checkpoint and two states of the output directory \<open>out\<close>: after one milestone save
  into the empty directory, and with the milestones \<open>0\<close>, \<open>1\<close> and \<open>2\<close> present.
\<close>

definition example_state :: "(unit, unit) checkpoint" where
  "example_state =
     \<lparr>ck_epoch = 80, ck_arch = ''resnet164_lst_cifar'', ck_state_dict = (),
      ck_best_prec1 = 0, ck_optimizer = ()\<rparr>"

definition one_milestone :: "(unit, unit) fs" where
  "one_milestone =
     [''out/checkpoint.pth.tar'' \<mapsto> Pickled example_state,
      ''out/model_must_save_0.pth.tar'' \<mapsto> Pickled example_state]"

definition three_milestones :: "(unit, unit) fs" where
  "three_milestones =
     [''out/model_must_save_0.pth.tar'' \<mapsto> Pickled example_state,
      ''out/model_must_save_1.pth.tar'' \<mapsto> Pickled example_state,
      ''out/model_must_save_2.pth.tar'' \<mapsto> Pickled example_state]"

text \<open>A run asked to resume from a file that is not there, with no epoch left to run.\<close>

definition missing_resume_run :: "(int, unit) run" where
  "missing_resume_run =
     (example_run 0)\<lparr>args := (args (example_run 0))\<lparr>resume := ''missing.pth.tar''\<rparr>\<rparr>"

text \<open>What a run has left when it stops: the epoch in the best slot, the best metric.\<close>

definition best_slot_after :: "(error + ('m, 'p) run) option \<Rightarrow> int option" where
  "best_slot_after r = (case r of Some (Inr s) \<Rightarrow> best_slot_epoch s | _ \<Rightarrow> None)"

definition best_prec1_after :: "(error + ('m, 'p) run) option \<Rightarrow> real option" where
  "best_prec1_after r = (case r of Some (Inr s) \<Rightarrow> Some (best_prec1 s) | _ \<Rightarrow> None)"

text \<open>
  The state of a 160-epoch run whose every validation gives \<open>50\<close>, after the epoch of
  index 39, and the checkpoint that epoch writes.
\<close>

definition checkpoint_40 :: "(int, unit param_group list) checkpoint" where
  "checkpoint_40 =
     \<lparr>ck_epoch = 40, ck_arch = ''resnet164_lst_cifar'', ck_state_dict = 39,
      ck_best_prec1 = 50, ck_optimizer = [\<lparr>group_lr = 0.1, group_rest = ()\<rparr>]\<rparr>"

definition after_epoch_39 :: "(int, unit) run" where
  "after_epoch_39 =
     \<lparr>args = example_args 160, best_prec1 = 50, model = 39,
      optimizer = [\<lparr>group_lr = 0.1, group_rest = ()\<rparr>],
      disk = [''./checkpoint.pth.tar'' \<mapsto> Pickled checkpoint_40,
              ''./model_best.pth.tar'' \<mapsto> Pickled checkpoint_40],
      stdout = []\<rparr>"

text \<open>A fresh process started on that disk with \<^verbatim>\<open>--resume ./checkpoint.pth.tar\<close>.\<close>

definition restarted_run :: "(int, unit) run" where
  "restarted_run =
     initial_run ((example_args 160)\<lparr>resume := ''./checkpoint.pth.tar''\<rparr>) (- 1)
       [\<lparr>group_lr = 0.1, group_rest = ()\<rparr>] (disk after_epoch_39)"

text \<open>
  The example run of validation means \<open>70, 65, 72, 72, 80\<close> before and after the epoch
  of index 3, the tie.
\<close>

definition checkpoint_3 :: "(int, unit param_group list) checkpoint" where
  "checkpoint_3 =
     \<lparr>ck_epoch = 3, ck_arch = ''resnet164_lst_cifar'', ck_state_dict = 2,
      ck_best_prec1 = 72, ck_optimizer = [\<lparr>group_lr = 0.1, group_rest = ()\<rparr>]\<rparr>"

definition epoch_3_start :: "(int, unit) run" where
  "epoch_3_start =
     \<lparr>args = example_args 5, best_prec1 = 72, model = 2,
      optimizer = [\<lparr>group_lr = 0.1, group_rest = ()\<rparr>],
      disk = [''./checkpoint.pth.tar'' \<mapsto> Pickled checkpoint_3,
              ''./model_best.pth.tar'' \<mapsto> Pickled checkpoint_3],
      stdout = []\<rparr>"

definition epoch_3_end :: "(int, unit) run" where
  "epoch_3_end =
     \<lparr>args = example_args 5, best_prec1 = 72, model = 3,
      optimizer = [\<lparr>group_lr = 0.1, group_rest = ()\<rparr>],
      disk = [''./model_best.pth.tar'' \<mapsto> Pickled checkpoint_3,
              ''./checkpoint.pth.tar''
                \<mapsto> Pickled (checkpoint_3\<lparr>ck_epoch := 4, ck_state_dict := 3\<rparr>)],
      stdout = []\<rparr>"

section \<open>Paths\<close>

lemma checkpoint_path_neq_best:
  "path_join d checkpoint_name \<noteq> path_join d ''model_best.pth.tar''"
  by (simp add: path_join_def)

lemma must_save_path_neq_best:
  "path_join d (must_save_name i) \<noteq> path_join d ''model_best.pth.tar''"
  by (simp add: path_join_def must_save_name_def)

lemma must_save_path_neq_checkpoint:
  "path_join d (must_save_name i) \<noteq> path_join d checkpoint_name"
  by (simp add: path_join_def must_save_name_def)

lemma must_save_name_0: "must_save_name 0 = ''model_must_save_0.pth.tar''"
  by (simp add: must_save_name_def string_of_nat.simps digit_char_def)

section \<open>The milestone loop\<close>

lemma must_save_loop_Some:
  assumes "must_save_loop dir filename files = Some r"
  shows "\<not> path_exists files (path_join dir (must_save_name 0))"
  using assms
  by (rule must_save_loop.raw_induct
        [where P = "\<lambda>d f fs r. \<not> path_exists fs (path_join d (must_save_name 0))", rotated])
     (simp add: Let_def split: if_splits)

lemma must_save_loop_diverges:
  assumes "path_exists files (path_join dir (must_save_name 0))"
  shows "must_save_loop dir filename files = None"
proof (cases "must_save_loop dir filename files")
  case None
  then show ?thesis .
next
  case (Some r)
  from must_save_loop_Some [OF Some] assms show ?thesis by simp
qed

lemma must_save_loop_returns:
  assumes "\<not> path_exists files (path_join dir (must_save_name 0))"
  shows "must_save_loop dir filename files =
           Some (copyfile (path_join dir filename)
                   (path_join dir (must_save_name 0)) files)"
  using assms by (subst must_save_loop.simps) simp

text \<open>
  Claim C1 (milestone numbering picks the smallest suffix not on disk: three saves give
  the suffixes 0, 1, 2). The code does not get that far. The first milestone save into
  the empty directory \<open>out\<close> writes the latest slot and the milestone of suffix 0; the
  second milestone save, on the directory the first one left, never returns, because
  each pass of the loop starts again from \<^verbatim>\<open>i = 0\<close>.
\<close>

theorem milestone_numbering_second_save_never_returns:
  "save_checkpoint example_state False ''out'' checkpoint_name True Map.empty
     = Some (Inr one_milestone)
   \<and> save_checkpoint example_state False ''out'' checkpoint_name True one_milestone = None"
proof
  have "\<not> path_exists (torch_save example_state (path_join ''out'' checkpoint_name) Map.empty)
          (path_join ''out'' (must_save_name 0))"
    by (simp add: path_exists_def torch_save_def path_join_def must_save_name_0)
  from must_save_loop_returns [OF this, of checkpoint_name]
  show "save_checkpoint example_state False ''out'' checkpoint_name True Map.empty
          = Some (Inr one_milestone)"
    by (simp add: save_checkpoint_def one_milestone_def torch_save_def copyfile_def
          path_join_def must_save_name_0)
next
  have "path_exists (torch_save example_state (path_join ''out'' checkpoint_name) one_milestone)
          (path_join ''out'' (must_save_name 0))"
    by (simp add: path_exists_def torch_save_def path_join_def must_save_name_0 one_milestone_def)
  from must_save_loop_diverges [OF this, of checkpoint_name]
  show "save_checkpoint example_state False ''out'' checkpoint_name True one_milestone = None"
    by (simp add: save_checkpoint_def)
qed

text \<open>
  Claim C2 (a milestone save terminates for every state of the output directory). It
  does not: whenever the milestone of suffix 0 is on disk, \<^verbatim>\<open>save_checkpoint\<close> with
  \<^verbatim>\<open>must_save=True\<close> never returns, whatever the checkpoint and whether or not the epoch
  is the best one.
\<close>

theorem save_checkpoint_must_save_never_returns:
  assumes "path_exists files (path_join dir (must_save_name 0))"
  shows "save_checkpoint state is_best dir checkpoint_name True files = None"
proof -
  let ?ck = "path_join dir checkpoint_name"
  let ?best = "path_join dir ''model_best.pth.tar''"
  let ?ms = "path_join dir (must_save_name 0)"
  let ?f1 = "torch_save state ?ck files"
  let ?f2 = "?f1(?best \<mapsto> Pickled state)"
  have c: "copyfile ?ck ?best ?f1 = Inr ?f2"
    using checkpoint_path_neq_best [of dir] by (simp add: copyfile_def torch_save_def)
  have e1: "path_exists ?f1 ?ms"
    using assms by (simp add: path_exists_def torch_save_def)
  then have e2: "path_exists ?f2 ?ms"
    by (simp add: path_exists_def)
  show ?thesis
  proof (cases is_best)
    case True
    with c must_save_loop_diverges [OF e2, of checkpoint_name] show ?thesis
      by (simp add: save_checkpoint_def Let_def)
  next
    case False
    with must_save_loop_diverges [OF e1, of checkpoint_name] show ?thesis
      by (simp add: save_checkpoint_def Let_def)
  qed
qed

theorem save_checkpoint_must_save_never_returns_witness:
  "path_exists three_milestones (path_join ''out'' (must_save_name 0))
   \<and> save_checkpoint example_state False ''out'' checkpoint_name True three_milestones = None"
proof -
  have h: "path_exists three_milestones (path_join ''out'' (must_save_name 0))"
    by (simp add: path_exists_def three_milestones_def path_join_def must_save_name_0)
  from h save_checkpoint_must_save_never_returns [OF h, of example_state False]
  show ?thesis by simp
qed

text \<open>
  Claim C10: whenever \<^verbatim>\<open>save_checkpoint\<close> is called with \<^verbatim>\<open>is_best=True\<close> and returns, the
  best slot holds the record just written to the latest slot, and both slots hold the
  state passed to the call. The call does return when the latest slot is not the best
  slot's own file and no milestone loop stands in the way.
\<close>

theorem best_slot_holds_latest_record:
  "(path_join dir filename \<noteq> path_join dir ''model_best.pth.tar'' \<and>
      (\<not> must_save \<or>
         \<not> path_exists files (path_join dir (must_save_name 0)) \<and>
         path_join dir filename \<noteq> path_join dir (must_save_name 0))
      \<longrightarrow> (\<exists>files'. save_checkpoint state True dir filename must_save files
                       = Some (Inr files')))
   \<and> (\<forall>files'. save_checkpoint state True dir filename must_save files = Some (Inr files')
        \<longrightarrow> files' (path_join dir ''model_best.pth.tar'') = Some (Pickled state)
          \<and> files' (path_join dir ''model_best.pth.tar'')
              = files' (path_join dir filename))"
proof -
  let ?ck = "path_join dir filename"
  let ?best = "path_join dir ''model_best.pth.tar''"
  let ?ms = "path_join dir (must_save_name 0)"
  let ?f1 = "torch_save state ?ck files"
  let ?f2 = "?f1(?best \<mapsto> Pickled state)"
  have c: "copyfile ?ck ?best ?f1 = (if ?ck = ?best then Inl SameFileError else Inr ?f2)"
    by (simp add: copyfile_def torch_save_def)
  have ret: "\<exists>files'. save_checkpoint state True dir filename must_save files
                = Some (Inr files')"
    if neq: "?ck \<noteq> ?best"
      and ms: "\<not> must_save \<or> \<not> path_exists files ?ms \<and> ?ck \<noteq> ?ms"
  proof (cases must_save)
    case False
    with neq c show ?thesis by (simp add: save_checkpoint_def Let_def)
  next
    case True
    with ms have "\<not> path_exists ?f2 ?ms"
      using must_save_path_neq_best [of dir 0]
      by (auto simp: path_exists_def torch_save_def)
    from must_save_loop_returns [OF this, of filename] True neq c ms show ?thesis
      by (auto simp: save_checkpoint_def Let_def copyfile_def torch_save_def)
  qed
  have eq: "files' ?best = Some (Pickled state) \<and> files' ?best = files' ?ck"
    if r: "save_checkpoint state True dir filename must_save files = Some (Inr files')"
    for files'
  proof (cases "?ck = ?best")
    case True
    with r c show ?thesis by (simp add: save_checkpoint_def Let_def)
  next
    case neq: False
    show ?thesis
    proof (cases must_save)
      case False
      with r neq c have "files' = ?f2" by (simp add: save_checkpoint_def Let_def)
      with neq show ?thesis by (simp add: torch_save_def)
    next
      case True
      with r neq c have l: "must_save_loop dir filename ?f2 = Some (Inr files')"
        by (simp add: save_checkpoint_def Let_def)
      from must_save_loop_returns [OF must_save_loop_Some [OF l], of filename] l
      have "copyfile ?ck ?ms ?f2 = Inr files'" by simp
      with neq have "files' = ?f2(?ms \<mapsto> Pickled state)"
        by (auto simp: copyfile_def torch_save_def split: if_splits)
      with neq show ?thesis by (simp add: torch_save_def)
    qed
  qed
  from ret eq show ?thesis by blast
qed

theorem best_slot_holds_latest_record_witness:
  "save_checkpoint example_state True ''out'' checkpoint_name False Map.empty
     = Some (Inr [''out/checkpoint.pth.tar'' \<mapsto> Pickled example_state,
                  ''out/model_best.pth.tar'' \<mapsto> Pickled example_state])
   \<and> [''out/checkpoint.pth.tar'' \<mapsto> Pickled example_state,
       ''out/model_best.pth.tar'' \<mapsto> Pickled example_state]
         (path_join ''out'' ''model_best.pth.tar'')
       = [''out/checkpoint.pth.tar'' \<mapsto> Pickled example_state,
          ''out/model_best.pth.tar'' \<mapsto> Pickled example_state]
         (path_join ''out'' checkpoint_name)"
proof -
  have r: "save_checkpoint example_state True ''out'' checkpoint_name False Map.empty
     = Some (Inr [''out/checkpoint.pth.tar'' \<mapsto> Pickled example_state,
                  ''out/model_best.pth.tar'' \<mapsto> Pickled example_state])"
    by (simp add: save_checkpoint_def torch_save_def copyfile_def path_join_def)
  from best_slot_holds_latest_record
    [of "''out''" checkpoint_name False Map.empty example_state] r
  show ?thesis by (simp add: path_join_def)
qed

section \<open>The meter\<close>










section \<open>Schedule\<close>

lemma round_double_eval:
  assumes "2 powi k \<le> \<bar>x\<bar>" and "\<bar>x\<bar> < 2 powi (k + 1)" and "- 1022 \<le> k"
  shows "round_double x = of_int (round_half_even (x / 2 powi (k - 52))) * 2 powi (k - 52)"
proof -
  have p: "(2::real) powr (real_of_int j) = 2 powi j" for j
    by (simp add: powr_real_of_int')
  have "(0::real) < 2 powi k" by simp
  with assms(1) have x: "0 < \<bar>x\<bar>" by linarith
  have "2 powr real_of_int k \<le> \<bar>x\<bar> \<and> \<bar>x\<bar> < 2 powr real_of_int (k + 1)"
    unfolding p using assms(1,2) by simp
  moreover have "(1::real) < 2" by simp
  ultimately have fl: "\<lfloor>log 2 \<bar>x\<bar>\<rfloor> = k"
    using x by (simp only: floor_log_eq_powr_iff)
  from x have nz: "x \<noteq> 0" by auto
  have m: "max (k - 52) (- 1074) = k - 52" using assms(3) by simp
  show ?thesis
    unfolding round_double_def Let_def fl m using nz by (simp only: if_False)
qed

lemma double_tenth: "round_double 0.1 = 3602879701896397 / 2 ^ 55"
  by (subst round_double_eval [where k = "- 4"])
     (simp_all add: round_half_even_def Let_def power_int_minus)

lemma double_hundredth: "round_double 0.01 = 5764607523034235 / 2 ^ 59"
  by (subst round_double_eval [where k = "- 7"])
     (simp_all add: round_half_even_def Let_def power_int_minus)

lemma double_thousandth: "round_double 0.001 = 1152921504606847 / 2 ^ 60"
  by (subst round_double_eval [where k = "- 10"])
     (simp_all add: round_half_even_def Let_def power_int_minus)

lemma double_tenth_times_tenth:
  "double_mul (round_double 0.1) (round_double 0.1) = 5764607523034236 / 2 ^ 59"
  unfolding double_mul_def double_tenth
  by (subst round_double_eval [where k = "- 7"])
     (simp_all add: round_half_even_def Let_def power_int_minus)

lemma double_tenth_times_hundredth:
  "double_mul (round_double 0.1) (round_double 0.01) = 1152921504606847 / 2 ^ 60"
  unfolding double_mul_def double_tenth double_hundredth
  by (subst round_double_eval [where k = "- 10"])
     (simp_all add: round_half_even_def Let_def power_int_minus)

lemma double_half_times_tenth:
  "double_mul (1 / 2) (round_double 0.1) = 3602879701896397 / 2 ^ 56"
  unfolding double_mul_def double_tenth
  by (subst round_double_eval [where k = "- 5"])
     (simp_all add: round_half_even_def Let_def power_int_minus)

lemma double_tenth_times_tenth_neq:
  "double_mul (round_double 0.1) (round_double 0.1) \<noteq> round_double 0.01"
  unfolding double_tenth_times_tenth double_hundredth by simp

lemma double_tenth_times_hundredth_eq:
  "double_mul (round_double 0.1) (round_double 0.01) = round_double 0.001"
  unfolding double_tenth_times_hundredth double_thousandth by (rule refl)

lemma adjust_learning_rate_map:
  "map group_lr (adjust_learning_rate base_lr opt epoch)
     = replicate (length opt)
         (if epoch \<le> 81 then base_lr
          else if epoch \<le> 122 then double_mul base_lr (round_double 0.1)
          else double_mul base_lr (round_double 0.01))"
  by (simp add: adjust_learning_rate_def Let_def map_replicate_const comp_def)

text \<open>
  Claim C7 as stated (with base rate \<open>0.1\<close> the epoch 82 gives \<open>0.01\<close>) fails: the rate
  written at epoch 82 is the double product of \<^verbatim>\<open>0.1\<close> and \<^verbatim>\<open>0.1\<close>, which is not the
  double that \<^verbatim>\<open>0.01\<close> denotes.
\<close>

theorem learning_rate_at_epoch_82_is_not_the_double_of_a_hundredth:
  "map group_lr
     (adjust_learning_rate (round_double 0.1)
        [\<lparr>group_lr = round_double 0.1, group_rest = ()\<rparr>] 82)
     \<noteq> [round_double 0.01]"
proof -
  have "map group_lr
     (adjust_learning_rate (round_double 0.1)
        [\<lparr>group_lr = round_double 0.1, group_rest = ()\<rparr>] 82)
     = [double_mul (round_double 0.1) (round_double 0.1)]"
    by (simp add: adjust_learning_rate_def)
  with double_tenth_times_tenth_neq show ?thesis
    by (simp only: list.inject simp_thms not_False_eq_True)
qed

text \<open>
  Claim C7, amended: for a finite base rate, the rate that \<^verbatim>\<open>adjust_learning_rate\<close>
  writes into every parameter group depends on \<^verbatim>\<open>args.lr\<close> and the epoch only: the base
  rate for epochs 0 to 81, the double product of the base rate and \<^verbatim>\<open>0.1\<close> for epochs
  82 to 122, the double product of the base rate and \<^verbatim>\<open>0.01\<close> from epoch 123 on;
  nothing else in a parameter group changes. With the base rate \<^verbatim>\<open>0.1\<close>, epoch 81 gives
  \<^verbatim>\<open>0.1\<close> and epoch 123 gives \<^verbatim>\<open>0.001\<close>; epochs 82 and 122 give
  \<open>5764607523034236 / 2 ^ 59\<close>, printed \<^verbatim>\<open>0.010000000000000002\<close>, the double next above
  \<^verbatim>\<open>0.01 = 5764607523034235 / 2 ^ 59\<close>.
\<close>

theorem learning_rate_schedule_in_doubles:
  "(0 \<le> epoch \<and> epoch \<le> 81 \<longrightarrow>
      map group_lr (adjust_learning_rate base_lr opt epoch) = replicate (length opt) base_lr)
   \<and> (82 \<le> epoch \<and> epoch \<le> 122 \<longrightarrow>
      map group_lr (adjust_learning_rate base_lr opt epoch)
        = replicate (length opt) (double_mul base_lr (round_double 0.1)))
   \<and> (123 \<le> epoch \<longrightarrow>
      map group_lr (adjust_learning_rate base_lr opt epoch)
        = replicate (length opt) (double_mul base_lr (round_double 0.01)))
   \<and> map group_rest (adjust_learning_rate base_lr opt epoch) = map group_rest opt
   \<and> map group_lr (adjust_learning_rate (round_double 0.1) opt 81)
       = replicate (length opt) (round_double 0.1)
   \<and> map group_lr (adjust_learning_rate (round_double 0.1) opt 82)
       = replicate (length opt) (5764607523034236 / 2 ^ 59)
   \<and> map group_lr (adjust_learning_rate (round_double 0.1) opt 122)
       = replicate (length opt) (5764607523034236 / 2 ^ 59)
   \<and> map group_lr (adjust_learning_rate (round_double 0.1) opt 123)
       = replicate (length opt) (round_double 0.001)
   \<and> round_double 0.01 = 5764607523034235 / 2 ^ 59"
proof -
  have r: "map group_rest (adjust_learning_rate base_lr opt epoch) = map group_rest opt"
    by (simp add: adjust_learning_rate_def Let_def comp_def)
  have a: "0 \<le> epoch \<and> epoch \<le> 81 \<longrightarrow>
      map group_lr (adjust_learning_rate base_lr opt epoch) = replicate (length opt) base_lr"
    by (simp add: adjust_learning_rate_map)
  have b: "82 \<le> epoch \<and> epoch \<le> 122 \<longrightarrow>
      map group_lr (adjust_learning_rate base_lr opt epoch)
        = replicate (length opt) (double_mul base_lr (round_double 0.1))"
    by (simp add: adjust_learning_rate_map)
  have c: "123 \<le> epoch \<longrightarrow>
      map group_lr (adjust_learning_rate base_lr opt epoch)
        = replicate (length opt) (double_mul base_lr (round_double 0.01))"
    by (simp add: adjust_learning_rate_map)
  have e81: "map group_lr (adjust_learning_rate (round_double 0.1) opt 81)
       = replicate (length opt) (round_double 0.1)"
    by (simp add: adjust_learning_rate_map)
  have "map group_lr (adjust_learning_rate (round_double 0.1) opt 82)
       = replicate (length opt) (double_mul (round_double 0.1) (round_double 0.1))"
    by (simp add: adjust_learning_rate_map)
  then have e82: "map group_lr (adjust_learning_rate (round_double 0.1) opt 82)
       = replicate (length opt) (5764607523034236 / 2 ^ 59)"
    unfolding double_tenth_times_tenth .
  have "map group_lr (adjust_learning_rate (round_double 0.1) opt 122)
       = replicate (length opt) (double_mul (round_double 0.1) (round_double 0.1))"
    by (simp add: adjust_learning_rate_map)
  then have e122: "map group_lr (adjust_learning_rate (round_double 0.1) opt 122)
       = replicate (length opt) (5764607523034236 / 2 ^ 59)"
    unfolding double_tenth_times_tenth .
  have "map group_lr (adjust_learning_rate (round_double 0.1) opt 123)
       = replicate (length opt) (double_mul (round_double 0.1) (round_double 0.01))"
    by (simp add: adjust_learning_rate_map)
  then have e123: "map group_lr (adjust_learning_rate (round_double 0.1) opt 123)
       = replicate (length opt) (round_double 0.001)"
    unfolding double_tenth_times_hundredth_eq .
  show ?thesis
    by (rule conjI [OF a conjI [OF b conjI [OF c conjI [OF r conjI [OF e81 conjI [OF e82
          conjI [OF e122 conjI [OF e123 double_hundredth]]]]]]]])
qed

theorem learning_rate_schedule_in_doubles_witness:
  "(82 :: int) \<le> 100 \<and> (100 :: int) \<le> 122
   \<and> map group_lr (adjust_learning_rate (1 / 2)
         [\<lparr>group_lr = 3, group_rest = ()\<rparr>, \<lparr>group_lr = 7, group_rest = ()\<rparr>] 100)
       = replicate 2 (3602879701896397 / 2 ^ 56)"
proof -
  have h: "(82 :: int) \<le> 100 \<and> (100 :: int) \<le> 122" by simp
  have l: "length [\<lparr>group_lr = 3 :: real, group_rest = ()\<rparr>, \<lparr>group_lr = 7, group_rest = ()\<rparr>] = 2"
    by simp
  note t = learning_rate_schedule_in_doubles
    [where epoch = 100 and base_lr = "1 / 2"
       and opt = "[\<lparr>group_lr = 3, group_rest = ()\<rparr>, \<lparr>group_lr = 7, group_rest = ()\<rparr>]"]
  from t [THEN conjunct2, THEN conjunct1, THEN mp, OF h]
  have "map group_lr (adjust_learning_rate (1 / 2)
         [\<lparr>group_lr = 3, group_rest = ()\<rparr>, \<lparr>group_lr = 7, group_rest = ()\<rparr>] 100)
       = replicate 2 (3602879701896397 / 2 ^ 56)"
    unfolding double_half_times_tenth l .
  with h show ?thesis by (simp only: simp_thms)
qed

section \<open>Resume\<close>

lemma print_fields:
  "args (print msg s) = args s" "best_prec1 (print msg s) = best_prec1 s"
  "model (print msg s) = model s" "optimizer (print msg s) = optimizer s"
  "disk (print msg s) = disk s" "stdout (print msg s) = stdout s @ [msg]"
  by (simp_all add: print_def)

text \<open>
  Claim C9: when \<^verbatim>\<open>args.resume\<close> is set and names no existing file, the resume step
  raises nothing; it prints \<^verbatim>\<open>=> no checkpoint found at '...'\<close> and leaves the start
  epoch, the best metric, the model, the optimizer and the disk as they were, and the
  run goes on into the epoch loop from that state.
\<close>

theorem missing_resume_checkpoint_is_logged_and_skipped:
  assumes "resume (args s) \<noteq> []" and "\<not> isfile (disk s) (resume (args s))"
  shows "main_resume s = Inr (print (''=> no checkpoint found at '' @ quoted (resume (args s))) s)
         \<and> start_epoch (args (print (''=> no checkpoint found at '' @ quoted (resume (args s))) s))
             = start_epoch (args s)
         \<and> best_prec1 (print (''=> no checkpoint found at '' @ quoted (resume (args s))) s)
             = best_prec1 s
         \<and> model (print (''=> no checkpoint found at '' @ quoted (resume (args s))) s) = model s
         \<and> optimizer (print (''=> no checkpoint found at '' @ quoted (resume (args s))) s)
             = optimizer s
         \<and> disk (print (''=> no checkpoint found at '' @ quoted (resume (args s))) s) = disk s
         \<and> ((ctype (args s) = 10 \<or> ctype (args s) = 100) \<and> \<not> evaluate (args s) \<longrightarrow>
               main train validate s
                 = epochs_loop train validate (epoch_range s)
                     (print (''=> no checkpoint found at '' @ quoted (resume (args s))) s))"
proof -
  let ?s' = "print (''=> no checkpoint found at '' @ quoted (resume (args s))) s"
  from assms have r: "main_resume s = Inr ?s'"
    by (simp add: main_resume_def)
  have "epoch_range ?s' = epoch_range s" by (simp add: epoch_range_def print_fields)
  with r have "(ctype (args s) = 10 \<or> ctype (args s) = 100) \<and> \<not> evaluate (args s) \<longrightarrow>
                    main train validate s = epochs_loop train validate (epoch_range s) ?s'"
    by (auto simp: main_def print_fields)
  with r show ?thesis by (simp add: print_fields)
qed

theorem missing_resume_checkpoint_is_logged_and_skipped_witness:
  "resume (args missing_resume_run) \<noteq> []
   \<and> \<not> isfile (disk missing_resume_run) (resume (args missing_resume_run))
   \<and> main example_train example_validate missing_resume_run
       = Some (Inr (print (''=> no checkpoint found at '' @ quoted ''missing.pth.tar'')
                      missing_resume_run))"
proof -
  have h1: "resume (args missing_resume_run) \<noteq> []"
    by (simp add: missing_resume_run_def example_run_def initial_run_def)
  have h2: "\<not> isfile (disk missing_resume_run) (resume (args missing_resume_run))"
    by (simp add: missing_resume_run_def example_run_def initial_run_def isfile_def)
  have a: "resume (args missing_resume_run) = ''missing.pth.tar''"
    "ctype (args missing_resume_run) = 100" "\<not> evaluate (args missing_resume_run)"
    "epoch_range missing_resume_run = []"
    by (simp_all add: missing_resume_run_def example_run_def initial_run_def example_args_def
          epoch_range_def)
  from missing_resume_checkpoint_is_logged_and_skipped
         [OF h1 h2, of example_train example_validate] h1 h2 a
  show ?thesis by simp
qed

section \<open>What a save leaves on disk\<close>

lemma save_checkpoint_Inr:
  assumes "save_checkpoint st b dir checkpoint_name ms fs = Some (Inr fs')"
  shows "fs' (path_join dir checkpoint_name) = Some (Pickled st)"
    and "fs' (path_join dir ''model_best.pth.tar'')
           = (if b then Some (Pickled st) else fs (path_join dir ''model_best.pth.tar''))"
proof -
  let ?ck = "path_join dir checkpoint_name"
  let ?best = "path_join dir ''model_best.pth.tar''"
  let ?ms = "path_join dir (must_save_name 0)"
  let ?f1 = "torch_save st ?ck fs"
  let ?f2 = "if b then ?f1(?best \<mapsto> Pickled st) else ?f1"
  note neq = checkpoint_path_neq_best [of dir] must_save_path_neq_best [of dir 0]
    must_save_path_neq_checkpoint [of dir 0]
  have c: "(if b then copyfile ?ck ?best ?f1 else Inr ?f1) = Inr ?f2"
    using neq by (simp add: copyfile_def torch_save_def)
  have f2: "?f2 ?ck = Some (Pickled st)"
    "?f2 ?best = (if b then Some (Pickled st) else fs ?best)"
    using neq by (auto simp: torch_save_def)
  have "fs' ?ck = Some (Pickled st) \<and> fs' ?best = (if b then Some (Pickled st) else fs ?best)"
  proof (cases ms)
    case False
    with assms c have "fs' = ?f2" by (simp add: save_checkpoint_def Let_def)
    with f2 show ?thesis by simp
  next
    case True
    with assms c have l: "must_save_loop dir checkpoint_name ?f2 = Some (Inr fs')"
      by (simp add: save_checkpoint_def Let_def)
    from must_save_loop_returns [OF must_save_loop_Some [OF l], of checkpoint_name] l
    have "copyfile ?ck ?ms ?f2 = Inr fs'" by simp
    with f2(1) neq have "fs' = ?f2(?ms \<mapsto> Pickled st)"
      by (simp add: copyfile_def split: if_splits)
    with f2 neq show ?thesis by (simp del: fun_upd_apply add: fun_upd_other)
  qed
  then show "fs' ?ck = Some (Pickled st)"
    and "fs' ?best = (if b then Some (Pickled st) else fs ?best)" by simp_all
qed

lemma main_epoch_Inr:
  assumes "main_epoch train validate e s = Some (Inr s')"
  defines "trained \<equiv> train e (model s) (adjust_learning_rate (lr (args s)) (optimizer s) e)"
  defines "prec1 \<equiv> validate (fst trained)"
  defines "st \<equiv> \<lparr>ck_epoch = e + 1, ck_arch = arch (args s), ck_state_dict = fst trained,
                  ck_best_prec1 = max prec1 (best_prec1 s), ck_optimizer = snd trained\<rparr>"
  shows "args s' = args s" and "best_prec1 s' = max prec1 (best_prec1 s)"
    and "model s' = fst trained" and "optimizer s' = snd trained"
    and "disk s' (path_join (output_dir (args s)) checkpoint_name) = Some (Pickled st)"
    and "disk s' (path_join (output_dir (args s)) ''model_best.pth.tar'')
           = (if best_prec1 s < prec1 then Some (Pickled st)
              else disk s (path_join (output_dir (args s)) ''model_best.pth.tar''))"
proof -
  let ?s3 = "s\<lparr>optimizer := snd trained, model := fst trained,
               best_prec1 := max prec1 (best_prec1 s)\<rparr>"
  from assms(1) obtain d where
    sv: "save_checkpoint st (best_prec1 s < prec1) (output_dir (args s)) checkpoint_name
           (e + 1 = 80) (disk s) = Some (Inr d)"
    and s': "s' = ?s3\<lparr>disk := d\<rparr>"
    unfolding main_epoch_def Let_def trained_def prec1_def st_def
    by (auto split: option.splits sum.splits)
  from s' show "args s' = args s" and "best_prec1 s' = max prec1 (best_prec1 s)"
    and "model s' = fst trained" and "optimizer s' = snd trained" by simp_all
  from s' save_checkpoint_Inr [OF sv]
  show "disk s' (path_join (output_dir (args s)) checkpoint_name) = Some (Pickled st)"
    and "disk s' (path_join (output_dir (args s)) ''model_best.pth.tar'')
           = (if best_prec1 s < prec1 then Some (Pickled st)
              else disk s (path_join (output_dir (args s)) ''model_best.pth.tar''))"
    by simp_all
qed

lemma epochs_loop_best_mono:
  "epochs_loop train validate es s = Some (Inr s') \<Longrightarrow> best_prec1 s \<le> best_prec1 s'"
proof (induction es arbitrary: s)
  case Nil
  then show ?case by simp
next
  case (Cons e es)
  then obtain s1 where 1: "main_epoch train validate e s = Some (Inr s1)"
    and 2: "epochs_loop train validate es s1 = Some (Inr s')"
    by (auto split: option.splits sum.splits)
  from main_epoch_Inr(2) [OF 1] have "best_prec1 s \<le> best_prec1 s1" by simp
  with Cons.IH [OF 2] show ?case by simp
qed


lemmas example_run_defs =
  main_def main_resume_def example_run_def example_args_def initial_run_def epoch_range_def
  main_epoch_def example_train_def example_validate_def adjust_learning_rate_def
  save_checkpoint_def torch_save_def copyfile_def path_join_def best_slot_epoch_def
  best_slot_after_def best_prec1_after_def Let_def upto.simps

text \<open>
  Claim C5: an epoch that returns leaves \<^verbatim>\<open>best_prec1\<close> at the maximum of its old value
  and the epoch's validation top-1 mean, hence never lower; when the mean is strictly
  above the old best, the best slot holds the checkpoint of that epoch (recorded epoch
  \<open>e + 1\<close>, the same record as the latest slot); on a tie or a lower mean the best slot
  keeps what it held. Over any stretch of epochs \<^verbatim>\<open>best_prec1\<close> does not decrease. For
  the means \<open>70, 65, 72, 72, 80\<close>, the best slot after 0, 1, 2, 3, 4, 5 epochs is absent,
  then of the epochs recorded as 1, 1, 3, 3, 5: it is written after the epochs of index
  0, 2 and 4 only; the final \<^verbatim>\<open>best_prec1\<close> is \<open>80\<close>.
\<close>

theorem best_checkpoint_strict_improvement:
  "(main_epoch train validate e s = Some (Inr s') \<longrightarrow>
      best_prec1 s' = max (validate (model s')) (best_prec1 s)
      \<and> best_prec1 s \<le> best_prec1 s'
      \<and> (best_prec1 s < validate (model s') \<longrightarrow>
            best_slot_after (Some (Inr s')) = Some (e + 1)
            \<and> disk s' (path_join (output_dir (args s')) ''model_best.pth.tar'')
                = disk s' (path_join (output_dir (args s')) checkpoint_name))
      \<and> (validate (model s') \<le> best_prec1 s \<longrightarrow>
            disk s' (path_join (output_dir (args s')) ''model_best.pth.tar'')
              = disk s (path_join (output_dir (args s)) ''model_best.pth.tar'')))
   \<and> (epochs_loop train validate es s = Some (Inr s') \<longrightarrow> best_prec1 s \<le> best_prec1 s')
   \<and> map (\<lambda>n. best_slot_after (main example_train example_validate (example_run n)))
         [0, 1, 2, 3, 4, 5]
       = [None, Some 1, Some 1, Some 3, Some 3, Some 5]
   \<and> best_prec1_after (main example_train example_validate (example_run 5)) = Some 80"
proof -
  have a: "best_prec1 s' = max (validate (model s')) (best_prec1 s)
      \<and> best_prec1 s \<le> best_prec1 s'
      \<and> (best_prec1 s < validate (model s') \<longrightarrow>
            best_slot_after (Some (Inr s')) = Some (e + 1)
            \<and> disk s' (path_join (output_dir (args s')) ''model_best.pth.tar'')
                = disk s' (path_join (output_dir (args s')) checkpoint_name))
      \<and> (validate (model s') \<le> best_prec1 s \<longrightarrow>
            disk s' (path_join (output_dir (args s')) ''model_best.pth.tar'')
              = disk s (path_join (output_dir (args s)) ''model_best.pth.tar''))"
    if r: "main_epoch train validate e s = Some (Inr s')"
    using main_epoch_Inr [OF r]
    by (auto simp: best_slot_after_def best_slot_epoch_def)
  have b: "best_prec1 s \<le> best_prec1 s'"
    if "epochs_loop train validate es s = Some (Inr s')"
    using that by (rule epochs_loop_best_mono)
  have c0: "best_slot_after (main example_train example_validate (example_run 0)) = None"
    by (simp add: example_run_defs)
  have c1: "best_slot_after (main example_train example_validate (example_run 1)) = Some 1"
    by (simp add: example_run_defs)
  have c2: "best_slot_after (main example_train example_validate (example_run 2)) = Some 1"
    by (simp add: example_run_defs)
  have c3: "best_slot_after (main example_train example_validate (example_run 3)) = Some 3"
    by (simp add: example_run_defs)
  have c4: "best_slot_after (main example_train example_validate (example_run 4)) = Some 3"
    by (simp add: example_run_defs)
  have c5: "best_slot_after (main example_train example_validate (example_run 5)) = Some 5"
    by (simp add: example_run_defs)
  have d: "best_prec1_after (main example_train example_validate (example_run 5)) = Some 80"
    by (simp add: example_run_defs)
  from a b c0 c1 c2 c3 c4 c5 d show ?thesis by simp
qed

theorem best_checkpoint_strict_improvement_witness:
  "main_epoch example_train example_validate 3 (epoch_3_start) = Some (Inr epoch_3_end)
   \<and> epochs_loop example_train example_validate [3] epoch_3_start = Some (Inr epoch_3_end)
   \<and> example_validate (model epoch_3_end) \<le> best_prec1 epoch_3_start
   \<and> best_prec1 epoch_3_end = 72
   \<and> disk epoch_3_end ''./model_best.pth.tar'' = disk epoch_3_start ''./model_best.pth.tar''"
proof -
  have h: "main_epoch example_train example_validate 3 epoch_3_start = Some (Inr epoch_3_end)"
    by (simp add: epoch_3_start_def epoch_3_end_def checkpoint_3_def example_run_defs)
  then have l: "epochs_loop example_train example_validate [3] epoch_3_start
                  = Some (Inr epoch_3_end)"
    by simp
  have v: "example_validate (model epoch_3_end) \<le> best_prec1 epoch_3_start"
    by (simp add: epoch_3_start_def epoch_3_end_def example_validate_def)
  have p: "path_join (output_dir (args epoch_3_end)) ''model_best.pth.tar''
             = ''./model_best.pth.tar''"
    "path_join (output_dir (args epoch_3_start)) ''model_best.pth.tar''
             = ''./model_best.pth.tar''"
    "best_prec1 epoch_3_start = 72" "example_validate (model epoch_3_end) = 72"
    by (simp_all add: epoch_3_start_def epoch_3_end_def example_args_def path_join_def
          example_validate_def)
  from best_checkpoint_strict_improvement
         [of example_train example_validate 3 epoch_3_start epoch_3_end "[3]"] h l v p
  show ?thesis by simp
qed

text \<open>
  Claim C6: the checkpoint that the epoch of index \<open>e\<close> writes to the latest slot records
  epoch \<open>e + 1\<close>; a run resumed from that file sets \<^verbatim>\<open>args.start_epoch\<close> to the recorded
  epoch, so its loop runs over \<open>e + 1, ..., epochs - 1\<close>: epoch \<open>e\<close> is not repeated and
  \<open>e + 1\<close> is the first to run when any is left. The best metric, the model and the
  optimizer are those the saving run had. With \<open>e = 39\<close> the recorded epoch is 40 and
  epoch 40 runs next.
\<close>

theorem resume_continues_after_saved_epoch:
  assumes "main_epoch train validate e s = Some (Inr s1)"
    and "disk s2 = disk s1"
    and "resume (args s2) = path_join (output_dir (args s)) checkpoint_name"
  shows "\<exists>ck s3. disk s1 (path_join (output_dir (args s)) checkpoint_name) = Some (Pickled ck)
           \<and> ck_epoch ck = e + 1
           \<and> main_resume s2 = Inr s3
           \<and> start_epoch (args s3) = ck_epoch ck
           \<and> epoch_range s3 = [e + 1..epochs (args s2) - 1]
           \<and> e \<notin> set (epoch_range s3)
           \<and> (e + 1 < epochs (args s2) \<longrightarrow> hd (epoch_range s3) = e + 1)
           \<and> best_prec1 s3 = best_prec1 s1 \<and> model s3 = model s1
           \<and> optimizer s3 = optimizer s1"
proof -
  let ?p = "path_join (output_dir (args s)) checkpoint_name"
  define trained where "trained = train e (model s) (adjust_learning_rate (lr (args s)) (optimizer s) e)"
  define ck where "ck = \<lparr>ck_epoch = e + 1, ck_arch = arch (args s), ck_state_dict = fst trained,
       ck_best_prec1 = max (validate (fst trained)) (best_prec1 s), ck_optimizer = snd trained\<rparr>"
  note me = main_epoch_Inr [OF assms(1), folded trained_def, folded ck_def]
  have d: "disk s1 ?p = Some (Pickled ck)" by (rule me(5))
  have ne: "?p \<noteq> []" by (simp add: path_join_def)
  define s3 where "s3 = print (''=> loaded checkpoint '' @ quoted ?p
                                   @ '' (epoch '' @ string_of_int (ck_epoch ck) @ '')'')
       ((print (''=> loading checkpoint '' @ quoted ?p) s2)
           \<lparr>args := (args s2)\<lparr>start_epoch := ck_epoch ck\<rparr>,
            best_prec1 := ck_best_prec1 ck, model := ck_state_dict ck,
            optimizer := ck_optimizer ck\<rparr>)"
  have r: "main_resume s2 = Inr s3"
    using d ne assms(2,3)
    by (simp add: main_resume_def isfile_def torch_load_def Let_def print_def s3_def)
  have f: "start_epoch (args s3) = e + 1" "epochs (args s3) = epochs (args s2)"
    "best_prec1 s3 = ck_best_prec1 ck" "model s3 = ck_state_dict ck"
    "optimizer s3 = ck_optimizer ck"
    by (simp_all add: s3_def print_def ck_def)
  have rng: "epoch_range s3 = [e + 1..epochs (args s2) - 1]"
    by (simp add: epoch_range_def f)
  have "e \<notin> set (epoch_range s3)" by (simp add: rng)
  moreover have "e + 1 < epochs (args s2) \<longrightarrow> hd (epoch_range s3) = e + 1"
    by (simp add: rng upto.simps)
  moreover have "ck_epoch ck = e + 1" by (simp add: ck_def)
  moreover have "best_prec1 s3 = best_prec1 s1" "model s3 = model s1" "optimizer s3 = optimizer s1"
    using me(2,3,4) by (simp_all add: f ck_def)
  ultimately show ?thesis using d r rng f(1) by auto
qed

theorem resume_continues_after_saved_epoch_witness:
  "main_epoch example_train (\<lambda>m. 50) 39 (example_run 160) = Some (Inr after_epoch_39)
   \<and> disk restarted_run = disk after_epoch_39
   \<and> resume (args restarted_run) = path_join (output_dir (args (example_run 160))) checkpoint_name
   \<and> (\<exists>s3. main_resume restarted_run = Inr s3 \<and> start_epoch (args s3) = 40
          \<and> hd (epoch_range s3) = 40 \<and> 39 \<notin> set (epoch_range s3))"
proof -
  have h1: "main_epoch example_train (\<lambda>m. 50) 39 (example_run 160) = Some (Inr after_epoch_39)"
    by (simp add: after_epoch_39_def checkpoint_40_def example_run_defs)
  have h2: "disk restarted_run = disk after_epoch_39"
    by (simp add: restarted_run_def initial_run_def)
  have h3: "resume (args restarted_run)
              = path_join (output_dir (args (example_run 160))) checkpoint_name"
    by (simp add: restarted_run_def example_run_defs)
  have e: "epochs (args restarted_run) = 160"
    by (simp add: restarted_run_def example_run_defs)
  from resume_continues_after_saved_epoch [OF h1 h2 h3] h1 h2 h3 e
  show ?thesis by auto
qed

section \<open>Top-k accuracy\<close>

lemma take_sorted_wrt_rank:
  assumes "sorted_wrt R xs" and "\<And>a b. R a b \<Longrightarrow> \<not> R b a" and "t \<in> set xs"
  shows "t \<in> set (take k xs) \<longleftrightarrow> length (filter (\<lambda>j. R j t) xs) < k"
  using assms(1,3)
proof (induction xs arbitrary: k)
  case Nil
  then show ?case by simp
next
  case (Cons x xs)
  from Cons.prems(1) have sx: "\<forall>y \<in> set xs. R x y" and s: "sorted_wrt R xs" by simp_all
  have irr: "\<not> R x x" using assms(2) by blast
  show ?case
  proof (cases k)
    case 0
    then show ?thesis by simp
  next
    case (Suc k')
    show ?thesis
    proof (cases "t = x")
      case True
      have "filter (\<lambda>j. R j x) xs = []"
        using sx assms(2) by (auto simp: filter_empty_conv)
      with True irr Suc show ?thesis by simp
    next
      case False
      with Cons.prems(2) have t: "t \<in> set xs" by simp
      with sx have "R x t" by blast
      with Cons.IH [OF s t, of k'] False Suc show ?thesis by simp
    qed
  qed
qed

lemma sort_key_strict:
  assumes "inj_on f (set xs)" and "distinct xs"
  shows "sorted_wrt (\<lambda>a b. f a < f b) (sort_key f xs)"
proof -
  have "distinct (map f (sort_key f xs))"
    using assms by (simp add: distinct_map)
  with sorted_sort_key [of f xs] have "sorted_wrt (<) (map f (sort_key f xs))"
    by (simp add: strict_sorted_iff)
  then show ?thesis by (simp add: sorted_wrt_map)
qed

lemma length_filter_distinct_set:
  assumes "distinct xs" and "distinct ys" and "set xs = set ys"
  shows "length (filter P xs) = length (filter P ys)"
proof -
  from assms(1) have "distinct (filter P xs)" by simp
  then have "card (set (filter P xs)) = length (filter P xs)" by (rule distinct_card)
  moreover from assms(2) have "distinct (filter P ys)" by simp
  then have "card (set (filter P ys)) = length (filter P ys)" by (rule distinct_card)
  moreover have "set (filter P xs) = set (filter P ys)" using assms(3) by simp
  ultimately show ?thesis by simp
qed

lemma topk_row_props:
  "distinct (topk_row m row)" "length (topk_row m row) = min m (length row)"
  "set (topk_row m row) \<subseteq> {0..<length row}"
proof -
  show "distinct (topk_row m row)" by (simp add: topk_row_def)
  show "length (topk_row m row) = min m (length row)" by (simp add: topk_row_def min.commute)
  have "set (topk_row m row) \<subseteq> set (sort_key (\<lambda>j. (- (row ! j), j)) [0..<length row])"
    unfolding topk_row_def by (rule set_take_subset)
  then show "set (topk_row m row) \<subseteq> {0..<length row}" by simp
qed

lemma take_topk_row_iff:
  assumes "k \<le> m"
  shows "t \<in> set (take k (topk_row m row)) \<longleftrightarrow> in_top_k k row t"
proof (cases "t < length row")
  case False
  have "set (take k (topk_row m row)) \<subseteq> set (topk_row m row)" by (rule set_take_subset)
  with topk_row_props(3) [of m row] False have "t \<notin> set (take k (topk_row m row))"
    by auto
  with False show ?thesis by (simp add: in_top_k_def)
next
  case True
  let ?key = "\<lambda>j. (- (row ! j), j)"
  let ?xs = "sort_key ?key [0..<length row]"
  let ?R = "\<lambda>a b. ?key a < ?key b"
  have tk: "take k (topk_row m row) = take k ?xs"
    using assms by (simp add: topk_row_def min_absorb1)
  have "inj_on ?key (set [0..<length row])" by (rule inj_onI) simp
  then have sw: "sorted_wrt ?R ?xs" by (rule sort_key_strict) simp
  have t: "t \<in> set ?xs" using True by simp
  have "t \<in> set (take k ?xs) \<longleftrightarrow> length (filter (\<lambda>j. ?R j t) ?xs) < k"
    by (rule take_sorted_wrt_rank [OF sw _ t]) auto
  also have "length (filter (\<lambda>j. ?R j t) ?xs) = length (filter (\<lambda>j. ?R j t) [0..<length row])"
    by (rule length_filter_distinct_set) simp_all
  also have "filter (\<lambda>j. ?R j t) [0..<length row]
               = filter (\<lambda>j. row ! t < row ! j \<or> (row ! j = row ! t \<and> j < t)) [0..<length row]"
    by (rule filter_cong) auto
  finally show ?thesis using True tk by (simp add: in_top_k_def)
qed


lemma fold_max_ge: "\<forall>k \<in> set (k0 # ks). k \<le> fold max ks (k0 :: nat)"
proof (induction ks arbitrary: k0)
  case Nil
  then show ?case by simp
next
  case (Cons a ks)
  from Cons.IH [of "max a k0"]
  have m: "max a k0 \<le> fold max ks (max a k0)"
    and r: "\<forall>k \<in> set ks. k \<le> fold max ks (max a k0)" by simp_all
  from m have "k0 \<le> fold max ks (max a k0)" "a \<le> fold max ks (max a k0)" by simp_all
  with r show ?case by simp
qed

lemma fold_max_in: "fold max ks (k0 :: nat) \<in> set (k0 # ks)"
proof (induction ks arbitrary: k0)
  case Nil
  then show ?case by simp
next
  case (Cons a ks)
  from Cons.IH [of "max a k0"] show ?case by (auto simp: max_def split: if_splits)
qed

lemma accuracy_loop_Inr:
  assumes "0 < b"
  shows "accuracy_loop correct b ks
           = Inr (map (\<lambda>k. real (length (filter id (concat (take k correct)))) * (100 / real b)) ks)"
  using assms by (induction ks) (simp_all add: Let_def)

lemma length_filter_upt_sum:
  "length (filter Q [0..<n]) = (\<Sum>i = 0..<n. if Q i then 1 else 0)"
  by (induction n) simp_all

lemma count_true_concat:
  "length (filter id (concat (map (\<lambda>r. map (Q r) [0..<b]) [0..<k])))
     = (\<Sum>r = 0..<k. \<Sum>i = 0..<b. if Q r i then 1 else (0 :: nat))"
proof (induction k)
  case 0
  then show ?case by simp
next
  case (Suc k)
  have "length (filter id (map (Q k) [0..<b])) = length (filter (Q k) [0..<b])"
    by (simp add: filter_map comp_def)
  with Suc show ?case by (simp add: length_filter_upt_sum)
qed

lemma hits_in_prefix:
  assumes "distinct xs" and "k \<le> length xs"
  shows "(\<Sum>r = 0..<k. if xs ! r = t then 1 else 0) = (if t \<in> set (take k xs) then 1 else (0 :: nat))"
  using assms(2)
proof (induction k)
  case 0
  then show ?case by simp
next
  case (Suc k)
  then have k: "k < length xs" by simp
  have tk: "take (Suc k) xs = take k xs @ [xs ! k]" using k by (rule take_Suc_conv_app_nth)
  from assms(1) have "distinct (take (Suc k) xs)" by simp
  with tk have "xs ! k \<notin> set (take k xs)" by simp
  with Suc.IH k tk show ?case by auto
qed


lemma eq_row:
  assumes "length target = length rws"
  shows "map2 (=) (map (\<lambda>row. topk_row m row ! r) rws) target
           = map (\<lambda>i. topk_row m (rws ! i) ! r = target ! i) [0..<length rws]"
proof (rule nth_equalityI)
  show "length (map2 (=) (map (\<lambda>row. topk_row m row ! r) rws) target)
          = length (map (\<lambda>i. topk_row m (rws ! i) ! r = target ! i) [0..<length rws])"
    using assms by simp
next
  fix i
  assume "i < length (map2 (=) (map (\<lambda>row. topk_row m row ! r) rws) target)"
  with assms have "i < length rws" by simp
  with assms
  show "map2 (=) (map (\<lambda>row. topk_row m row ! r) rws) target ! i
          = map (\<lambda>i. topk_row m (rws ! i) ! r = target ! i) [0..<length rws] ! i"
    by simp
qed

lemma take_correct:
  assumes "length target = length rws" and "k \<le> m"
  shows "take k (tensor_eq (tensor_t m (map (topk_row m) rws)) (replicate m target))
           = map (\<lambda>r. map (\<lambda>i. topk_row m (rws ! i) ! r = target ! i) [0..<length rws]) [0..<k]"
proof -
  let ?A = "tensor_t m (map (topk_row m) rws)"
  have A: "?A = map (\<lambda>j. map (\<lambda>row. topk_row m row ! j) rws) [0..<m]"
    by (simp add: tensor_t_def comp_def)
  have "tensor_eq ?A (replicate m target) = map (\<lambda>a. map2 (=) a target) (take m ?A)"
    unfolding tensor_eq_def zip_replicate2 by (simp add: comp_def)
  also have "take m ?A = ?A" unfolding A by simp
  finally have "take k (tensor_eq ?A (replicate m target))
                  = map (\<lambda>a. map2 (=) a target) (take k ?A)"
    by (simp only: take_map)
  also have "take k ?A = map (\<lambda>j. map (\<lambda>row. topk_row m row ! j) rws) [0..<k]"
    unfolding A using assms(2) by (simp add: take_map)
  also have "map (\<lambda>a. map2 (=) a target) (map (\<lambda>j. map (\<lambda>row. topk_row m row ! j) rws) [0..<k])
               = map (\<lambda>r. map2 (=) (map (\<lambda>row. topk_row m row ! r) rws) target) [0..<k]"
    by (simp only: map_map comp_def)
  finally show ?thesis
    by (simp only: eq_row [OF assms(1)])
qed


lemma count_correct:
  assumes len: "length target = length rws"
    and wf: "\<forall>row \<in> set rws. length row = c"
    and m: "m \<le> c" and k: "k \<le> m"
  shows "length (filter id (concat (take k
            (tensor_eq (tensor_t m (map (topk_row m) rws)) (replicate m target)))))
           = length (filter (\<lambda>i. in_top_k k (rws ! i) (target ! i)) [0..<length target])"
proof -
  let ?b = "length rws"
  let ?P = "\<lambda>i. topk_row m (rws ! i)"
  have "length (filter id (concat (take k
            (tensor_eq (tensor_t m (map (topk_row m) rws)) (replicate m target)))))
          = (\<Sum>r = 0..<k. \<Sum>i = 0..<?b. if ?P i ! r = target ! i then 1 else (0 :: nat))"
    unfolding take_correct [OF len k] by (rule count_true_concat)
  also have "\<dots> = (\<Sum>i = 0..<?b. \<Sum>r = 0..<k. if ?P i ! r = target ! i then 1 else 0)"
    by (rule sum.swap)
  also have "\<dots> = (\<Sum>i = 0..<?b. if in_top_k k (rws ! i) (target ! i) then 1 else 0)"
  proof (rule sum.cong [OF refl])
    fix i assume "i \<in> {0..<?b}"
    then have "rws ! i \<in> set rws" by simp
    with wf have "length (rws ! i) = c" by blast
    with m k have "k \<le> length (?P i)" by (simp add: topk_row_props(2))
    from hits_in_prefix [OF topk_row_props(1) this, of "target ! i"]
    show "(\<Sum>r = 0..<k. if ?P i ! r = target ! i then 1 else 0)
            = (if in_top_k k (rws ! i) (target ! i) then 1 else (0 :: nat))"
      by (simp add: take_topk_row_iff [OF k])
  qed
  also have "\<dots> = length (filter (\<lambda>i. in_top_k k (rws ! i) (target ! i)) [0..<?b])"
    by (simp add: length_filter_upt_sum)
  finally show ?thesis by (simp add: len)
qed


lemma accuracy_refines_spec:
  assumes wf: "wf_tensor out" and len: "length target = length (rows out)"
    and ne: "target \<noteq> []" and tk: "topk \<noteq> []"
    and le: "\<forall>k \<in> set topk. k \<le> ncols out"
  shows "accuracy out target topk = Inr (map (spec_topk_accuracy out target) topk)"
proof -
  from tk obtain k0 ks where topk: "topk = k0 # ks" by (cases topk) auto
  let ?m = "fold max ks k0"
  from fold_max_in [of ks k0] le topk have m: "?m \<le> ncols out" by auto
  from fold_max_ge [of k0 ks] topk have km: "\<forall>k \<in> set topk. k \<le> ?m" by simp
  from wf have wf': "\<forall>row \<in> set (rows out). length row = ncols out"
    by (simp add: wf_tensor_def list_all_iff)
  from ne have b: "0 < length target" by simp
  let ?correct = "tensor_eq (tensor_t ?m (map (topk_row ?m) (rows out))) (replicate ?m target)"
  have "accuracy out target topk = accuracy_loop ?correct (length target) topk"
    using m len by (simp add: accuracy_def topk tensor_topk_def expand_as_def Let_def)
  also have "\<dots> = Inr (map (\<lambda>k. real (length (filter id (concat (take k ?correct))))
                              * (100 / real (length target))) topk)"
    by (rule accuracy_loop_Inr [OF b])
  also have "map (\<lambda>k. real (length (filter id (concat (take k ?correct))))
                              * (100 / real (length target))) topk
               = map (spec_topk_accuracy out target) topk"
  proof (rule map_cong [OF refl])
    fix k assume "k \<in> set topk"
    with km have "k \<le> ?m" by blast
    from count_correct [OF len wf' m this]
    show "real (length (filter id (concat (take k ?correct)))) * (100 / real (length target))
            = spec_topk_accuracy out target k"
      by (simp add: spec_topk_accuracy_def)
  qed
  finally show ?thesis .
qed

lemma accuracy_raises_beyond_classes:
  assumes "k \<in> set topk" and "ncols out < k"
  shows "accuracy out target topk = Inl RuntimeError"
proof -
  from assms(1) obtain k0 ks where topk: "topk = k0 # ks" by (cases topk) auto
  from fold_max_ge [of k0 ks] assms topk have "ncols out < fold max ks k0" by auto
  then show ?thesis by (simp add: accuracy_def topk tensor_topk_def Let_def)
qed

lemmas accuracy_defs =
  accuracy_def example_scores_def tensor_topk_def topk_row_def tensor_t_def expand_as_def
  tensor_eq_def

text \<open>
  Claim C4 as stated (top-5 on three classes is clamped and gives \<open>100.0\<close>) fails:
  \<^verbatim>\<open>accuracy\<close> asks the library for the \<^verbatim>\<open>max(topk) = 5\<close> best of three classes, and
  that call raises; nothing is clamped.
\<close>

theorem accuracy_top5_on_three_classes_raises:
  "accuracy example_scores [1, 0] [1, 5] = Inl RuntimeError"
  by (simp add: accuracy_defs)



text \<open>
  Claim C4, amended: for a batch that is not empty, with one target per row of scores,
  and requested values of \<open>k\<close> none of which exceeds the number of classes, \<^verbatim>\<open>accuracy\<close>
  returns for every requested \<open>k\<close> the value
  \<open>100 * (count of examples whose target is among the k highest-scoring classes) /
  batch_size\<close>; when a requested \<open>k\<close> exceeds the number of classes the call raises. On
  the scores \<open>[[0.1, 0.9, 0.0], [0.8, 0.1, 0.1]]\<close>: targets \<open>[1, 0]\<close> give top-1 \<open>100\<close>,
  and raise when top-5 is requested too; targets \<open>[0, 1]\<close> give top-1 \<open>0\<close>.
\<close>

theorem accuracy_is_topk_percentage:
  "(wf_tensor out \<and> length target = length (rows out) \<and> target \<noteq> [] \<and> topk \<noteq> []
      \<and> (\<forall>k \<in> set topk. k \<le> ncols out)
      \<longrightarrow> accuracy out target topk = Inr (map (spec_topk_accuracy out target) topk))
   \<and> ((\<exists>k \<in> set topk. ncols out < k) \<longrightarrow> accuracy out target topk = Inl RuntimeError)
   \<and> accuracy example_scores [1, 0] [1] = Inr [100]
   \<and> accuracy example_scores [1, 0] [1, 5] = Inl RuntimeError
   \<and> accuracy example_scores [0, 1] [1] = Inr [0]"
proof -
  have a: "wf_tensor out \<and> length target = length (rows out) \<and> target \<noteq> [] \<and> topk \<noteq> []
      \<and> (\<forall>k \<in> set topk. k \<le> ncols out)
      \<longrightarrow> accuracy out target topk = Inr (map (spec_topk_accuracy out target) topk)"
    using accuracy_refines_spec [of out target topk] by blast
  have b: "(\<exists>k \<in> set topk. ncols out < k) \<longrightarrow> accuracy out target topk = Inl RuntimeError"
    using accuracy_raises_beyond_classes [of _ topk out target] by blast
  have c: "accuracy example_scores [1, 0] [1] = Inr [100]"
    by (simp add: accuracy_defs)
  have d: "accuracy example_scores [1, 0] [1, 5] = Inl RuntimeError"
    by (simp add: accuracy_defs)
  have e: "accuracy example_scores [0, 1] [1] = Inr [0]"
    by (simp add: accuracy_defs)
  show ?thesis
    by (rule conjI [OF a conjI [OF b conjI [OF c conjI [OF d e]]]])
qed

theorem accuracy_is_topk_percentage_witness:
  "wf_tensor example_scores \<and> length [0 :: nat, 1] = length (rows example_scores)
   \<and> (1 :: nat) \<le> ncols example_scores \<and> (2 :: nat) \<le> ncols example_scores
   \<and> accuracy example_scores [0, 1] [1, 2] = Inr [0, 100]
   \<and> ncols example_scores < 5
   \<and> accuracy example_scores [0, 1] [5] = Inl RuntimeError"
proof -
  have h1: "wf_tensor example_scores" by (simp add: wf_tensor_def example_scores_def)
  have h2: "length [0 :: nat, 1] = length (rows example_scores)"
    by (simp add: example_scores_def)
  have h3: "(1 :: nat) \<le> ncols example_scores" by (simp add: example_scores_def)
  have h4: "(2 :: nat) \<le> ncols example_scores" by (simp add: example_scores_def)
  have h5: "ncols example_scores < 5" by (simp add: example_scores_def)
  have s: "map (spec_topk_accuracy example_scores [0, 1]) [1, 2] = [0, 100]"
    by (simp add: spec_topk_accuracy_def in_top_k_def example_scores_def)
  have p1: "wf_tensor example_scores \<and> length [0 :: nat, 1] = length (rows example_scores)
      \<and> [0 :: nat, 1] \<noteq> [] \<and> [1 :: nat, 2] \<noteq> []
      \<and> (\<forall>k \<in> set [1 :: nat, 2]. k \<le> ncols example_scores)"
    using h1 h2 h3 h4 by simp
  have p2: "\<exists>k \<in> set [5 :: nat]. ncols example_scores < k" using h5 by simp
  note t1 = accuracy_is_topk_percentage [of example_scores "[0, 1]" "[1, 2]"]
  note t2 = accuracy_is_topk_percentage [of example_scores "[0, 1]" "[5]"]
  from t1 [THEN conjunct1, THEN mp, OF p1]
  have r1: "accuracy example_scores [0, 1] [1, 2] = Inr [0, 100]" unfolding s .
  from t2 [THEN conjunct2, THEN conjunct1, THEN mp, OF p2]
  have r2: "accuracy example_scores [0, 1] [5] = Inl RuntimeError" .
  show ?thesis
    by (rule conjI [OF h1 conjI [OF h2 conjI [OF h3 conjI [OF h4 conjI [OF r1 conjI [OF h5 r2]]]]]])
qed

end
